theory Spec2Isabelle
  imports Complex_Main
begin

section \<open>The ski game: entities, the skier and the pause toggle\<close>

text \<open>
  A shallow embedding of \<^verbatim>\<open>src/Entities/Entity.ts\<close>, \<^verbatim>\<open>src/Entities/Skier.ts\<close> and
  \<^verbatim>\<open>Game.togglePause\<close> of \<^verbatim>\<open>src/Core/Game.ts\<close>.

  A TypeScript \<^verbatim>\<open>number\<close> is modelled as a \<open>real\<close> (coordinates, speeds, times, image
  sizes) and as an \<open>int\<close> where the code only counts (the heading, the frame index): the
  rounding of doubles, \<^verbatim>\<open>NaN\<close> and the infinities are not part of the model. \<^verbatim>\<open>null\<close> and
  \<^verbatim>\<open>undefined\<close> are both \<open>None\<close>: the code only ever tests such values for truthiness.
  Mutation of \<^verbatim>\<open>this\<close> is explicit state passing: a method takes the object and returns
  the updated object. The collaborators an object only holds a reference to (the image
  manager, the obstacle manager) are arguments of the methods that consult them.
\<close>

subsection \<open>Constants and geometry\<close>

text \<open>
  Modelled from the spec: the enum \<^verbatim>\<open>STATES\<close> of \<^verbatim>\<open>Constants.ts\<close>, which is not among the
  sources. The members are the four player states that \<^verbatim>\<open>Skier.ts\<close> names and the spec
  lists (SKIING, JUMPING, CRASHED, DEAD).
\<close>

datatype STATES = STATE_SKIING | STATE_JUMPING | STATE_CRASHED | STATE_DEAD

text \<open>
  Modelled from the spec: the enum \<^verbatim>\<open>IMAGE_NAMES\<close> of \<^verbatim>\<open>Constants.ts\<close>, which is not
  among the sources. The members are the image names that \<^verbatim>\<open>Skier.ts\<close> uses, and the two
  remaining obstacle kinds of the spec's closed set (tree, tree cluster).
\<close>

datatype IMAGE_NAMES =
    SKIER_CRASH | SKIER_LEFT | SKIER_LEFTDOWN | SKIER_DOWN | SKIER_RIGHTDOWN | SKIER_RIGHT
  | SKIER_JUMP1 | SKIER_JUMP2 | SKIER_JUMP3 | SKIER_JUMP4 | SKIER_JUMP5
  | TREE | TREE_CLUSTER | ROCK1 | ROCK2 | JUMP_RAMP

text \<open>
  The key codes \<^verbatim>\<open>KEYS\<close> of \<^verbatim>\<open>Constants.ts\<close> (not among the sources) are a parameter of
  the input handler: whatever strings the five codes are, also if two of them coincide.
\<close>

record KEYS =
  LEFT :: string
  RIGHT :: string
  UP :: string
  DOWN :: string
  SPACE :: string

text \<open>
  Modelled from the spec: \<^verbatim>\<open>Position\<close>, \<^verbatim>\<open>Rect\<close> and \<^verbatim>\<open>intersectTwoRects\<close> of
  \<^verbatim>\<open>Core/Utils.ts\<close>, which is not among the sources. The spec: a position is (x, y), a
  rectangle is (left, top, right, bottom) and two rectangles intersect iff
  not (a.right < b.left or a.left > b.right or a.bottom < b.top or a.top > b.bottom).
\<close>

record Position =
  x :: real
  y :: real

record Rect =
  left :: real
  top :: real
  right :: real
  bottom :: real

definition intersectTwoRects :: "Rect \<Rightarrow> Rect \<Rightarrow> bool" where
  "intersectTwoRects a b =
     (\<not> (right a < left b \<or> left a > right b \<or> bottom a < top b \<or> top a > bottom b))"

text \<open>
  What the image manager hands out for a loaded image: its size. The image manager itself
  (\<^verbatim>\<open>Core/ImageManager.ts\<close>, not among the sources) is the argument \<open>getImage\<close> of the
  methods below; \<open>getImage n = None\<close> says that no image is loaded under the name \<open>n\<close>.
\<close>

record Image =
  width :: real
  height :: real

text \<open>Reading a JavaScript array at an index: \<^verbatim>\<open>undefined\<close> outside the array.\<close>

definition js_index :: "'a list \<Rightarrow> int \<Rightarrow> 'a option" where
  "js_index xs i = (if 0 \<le> i \<and> i < int (length xs) then Some (xs ! nat i) else None)"

subsection \<open>Animation\<close>

text \<open>
  Modelled from the spec: the class \<^verbatim>\<open>Animation\<close> of \<^verbatim>\<open>Core/Animation.ts\<close>, which is not
  among the sources: the image sequence, the looping flag and the optional completion
  callback, read by \<^verbatim>\<open>getImages()\<close>, \<^verbatim>\<open>getLooping()\<close> and \<^verbatim>\<open>getCallback()\<close>. The
  callback is a closure in the code; here it is a value of a type \<open>'cb\<close> of callback names,
  and the entity methods that fire callbacks take the function \<open>run\<close> that executes one on
  the entity.
\<close>

record ('img, 'cb) Animation =
  images :: "'img list"
  looping :: bool
  callback :: "'cb option"

subsection \<open>Entity\<close>

text \<open>
  The fields of \<^verbatim>\<open>Entity\<close>, with the two abstract fields \<open>state\<close> and \<open>imageName\<close> that
  every subclass defines. \<open>imageName\<close> is \<open>None\<close> where the code stores \<^verbatim>\<open>undefined\<close>
  (an array or table read out of range).
\<close>

record ('st, 'img, 'cb) Entity =
  position :: Position
  imageName :: "'img option"
  state :: "'st option"
  animations :: "'st \<rightharpoonup> ('img, 'cb) Animation"
  curAnimation :: "('img, 'cb) Animation option"
  curAnimationFrame :: int
  curAnimationFrameTime :: real

text \<open>\<^verbatim>\<open>Entity.getBounds\<close>.\<close>

definition getBounds ::
  "('img option \<Rightarrow> Image option) \<Rightarrow> ('st, 'img, 'cb, 'z) Entity_scheme \<Rightarrow> Rect option" where
  "getBounds getImage e =
     (case getImage (imageName e) of
        None \<Rightarrow> None
      | Some img \<Rightarrow>
          Some \<lparr> left = x (position e) - width img / 2,
                 top = y (position e) - height img / 2,
                 right = x (position e) + width img / 2,
                 bottom = y (position e) \<rparr>)"

text \<open>
  \<^verbatim>\<open>Entity.setAnimation\<close>. The table \<open>animations\<close> is read at the state tag; the result is
  stored in \<open>curAnimation\<close> before it is tested.
\<close>

definition setAnimation ::
  "('st, 'img, 'cb, 'z) Entity_scheme \<Rightarrow> ('st, 'img, 'cb, 'z) Entity_scheme" where
  "setAnimation e =
     (let e1 = e\<lparr>curAnimation := (case state e of None \<Rightarrow> None | Some st \<Rightarrow> animations e st)\<rparr>
      in case curAnimation e1 of
           None \<Rightarrow> e1
         | Some a \<Rightarrow>
             (let e2 = e1\<lparr>curAnimationFrame := 0\<rparr>;
                  animateImages = images a
              in e2\<lparr>imageName := js_index animateImages (curAnimationFrame e2)\<rparr>))"

text \<open>\<^verbatim>\<open>Entity.finishAnimation\<close>.\<close>

definition finishAnimation ::
  "('cb \<Rightarrow> ('st, 'img, 'cb, 'z) Entity_scheme \<Rightarrow> ('st, 'img, 'cb, 'z) Entity_scheme) \<Rightarrow>
   ('st, 'img, 'cb, 'z) Entity_scheme \<Rightarrow> ('st, 'img, 'cb, 'z) Entity_scheme" where
  "finishAnimation run e =
     (case curAnimation e of
        None \<Rightarrow> e
      | Some a \<Rightarrow>
          (let animationCallback = callback a;
               e1 = e\<lparr>curAnimation := None\<rparr>
           in case animationCallback of
                None \<Rightarrow> e1
              | Some cb \<Rightarrow> run cb e1))"

text \<open>\<^verbatim>\<open>Entity.nextAnimationFrame\<close>.\<close>

definition nextAnimationFrame ::
  "('cb \<Rightarrow> ('st, 'img, 'cb, 'z) Entity_scheme \<Rightarrow> ('st, 'img, 'cb, 'z) Entity_scheme) \<Rightarrow>
   real \<Rightarrow> ('st, 'img, 'cb, 'z) Entity_scheme \<Rightarrow> ('st, 'img, 'cb, 'z) Entity_scheme" where
  "nextAnimationFrame run gameTime e =
     (case curAnimation e of
        None \<Rightarrow> e
      | Some a \<Rightarrow>
          (let animationImages = images a;
               e1 = e\<lparr>curAnimationFrameTime := gameTime\<rparr>;
               e2 = e1\<lparr>curAnimationFrame := curAnimationFrame e1 + 1\<rparr>
           in if curAnimationFrame e2 \<ge> int (length animationImages) then
                (if \<not> looping a then finishAnimation run e2
                 else (let e3 = e2\<lparr>curAnimationFrame := 0\<rparr>
                       in e3\<lparr>imageName := js_index animationImages (curAnimationFrame e3)\<rparr>))
              else e2\<lparr>imageName := js_index animationImages (curAnimationFrame e2)\<rparr>))"

text \<open>\<^verbatim>\<open>Entity.animate\<close>.\<close>

definition animate ::
  "('cb \<Rightarrow> ('st, 'img, 'cb, 'z) Entity_scheme \<Rightarrow> ('st, 'img, 'cb, 'z) Entity_scheme) \<Rightarrow>
   real \<Rightarrow> real \<Rightarrow> ('st, 'img, 'cb, 'z) Entity_scheme \<Rightarrow> ('st, 'img, 'cb, 'z) Entity_scheme" where
  "animate run gameTime animationFrameSpeed e =
     (case curAnimation e of
        None \<Rightarrow> e
      | Some a \<Rightarrow>
          if gameTime - curAnimationFrameTime e > animationFrameSpeed
          then nextAnimationFrame run gameTime e
          else e)"

text \<open>The constructor of \<^verbatim>\<open>Entity\<close>, given the two fields the subclass initialises.\<close>

definition new_Entity ::
  "real \<Rightarrow> real \<Rightarrow> 'img option \<Rightarrow> 'st option \<Rightarrow> ('st, 'img, 'cb) Entity" where
  "new_Entity px py img st =
     \<lparr> position = \<lparr> x = px, y = py \<rparr>,
       imageName = img,
       state = st,
       animations = Map.empty,
       curAnimation = None,
       curAnimationFrame = 0,
       curAnimationFrameTime = 0 \<rparr>"

subsection \<open>Obstacles and the rhino\<close>

text \<open>
  Modelled from the spec: the class \<^verbatim>\<open>Obstacle\<close> of \<^verbatim>\<open>Entities/Obstacles/Obstacle.ts\<close>,
  which is not among the sources. The spec: an obstacle is the stateless, non-animated
  subtype of the entity, a position and a fixed image name, with the bounds of the default
  entity. The skier reads \<^verbatim>\<open>obstacle.imageName\<close> and \<^verbatim>\<open>obstacle.getBounds()\<close>.
\<close>

type_synonym Obstacle = "(STATES, IMAGE_NAMES, unit) Entity"

text \<open>
  Modelled from the spec: the class \<^verbatim>\<open>Rhino\<close> of \<^verbatim>\<open>Entities/Rhino.ts\<close>, which is not
  among the sources: an entity with the field \<^verbatim>\<open>speed\<close> that \<^verbatim>\<open>Game.togglePause\<close>
  writes. Its states, images and callbacks are left open.
\<close>

record ('st, 'img, 'cb) Rhino = "('st, 'img, 'cb) Entity" +
  speed :: real

subsection \<open>Skier\<close>

definition STARTING_SPEED :: real where
  "STARTING_SPEED = 5"

definition DIRECTION_LEFT :: int where "DIRECTION_LEFT = 0"
definition DIRECTION_LEFT_DOWN :: int where "DIRECTION_LEFT_DOWN = 1"
definition DIRECTION_DOWN :: int where "DIRECTION_DOWN = 2"
definition DIRECTION_RIGHT_DOWN :: int where "DIRECTION_RIGHT_DOWN = 3"
definition DIRECTION_RIGHT :: int where "DIRECTION_RIGHT = 4"

definition DIRECTION_IMAGES :: "int \<rightharpoonup> IMAGE_NAMES" where
  "DIRECTION_IMAGES =
     [DIRECTION_LEFT \<mapsto> SKIER_LEFT,
      DIRECTION_LEFT_DOWN \<mapsto> SKIER_LEFTDOWN,
      DIRECTION_DOWN \<mapsto> SKIER_DOWN,
      DIRECTION_RIGHT_DOWN \<mapsto> SKIER_RIGHTDOWN,
      DIRECTION_RIGHT \<mapsto> SKIER_RIGHT]"

definition IMAGES_JUMPING :: "IMAGE_NAMES list" where
  "IMAGES_JUMPING = [SKIER_JUMP1, SKIER_JUMP2, SKIER_JUMP3, SKIER_JUMP4, SKIER_JUMP5]"

text \<open>
  The one callback a skier registers, \<^verbatim>\<open>this.continueFromJump.bind(this)\<close>; the function
  \<open>run_callback\<close> below executes it.
\<close>

datatype skier_callback = ContinueFromJump

text \<open>
  The fields that \<^verbatim>\<open>Skier\<close> adds to \<^verbatim>\<open>Entity\<close>. The obstacle manager is the argument
  \<open>obstacles\<close> of the methods that ask it for \<^verbatim>\<open>getObstacles()\<close>, the constant
  \<^verbatim>\<open>DIAGONAL_SPEED_REDUCER\<close> of \<^verbatim>\<open>Constants.ts\<close> (not among the sources) is an argument of
  the methods that divide by it.
\<close>

record Skier = "(STATES, IMAGE_NAMES, skier_callback) Entity" +
  direction :: int
  speed :: real

definition setupAnimations :: "Skier \<Rightarrow> Skier" where
  "setupAnimations s =
     s\<lparr>animations := (animations s)(STATE_JUMPING \<mapsto>
          \<lparr> images = IMAGES_JUMPING, looping = False, callback = Some ContinueFromJump \<rparr>)\<rparr>"

definition new_Skier :: "real \<Rightarrow> real \<Rightarrow> Skier" where
  "new_Skier px py =
     setupAnimations
       (Entity.extend (new_Entity px py (Some SKIER_DOWN) (Some STATE_SKIING))
          \<lparr> direction = DIRECTION_DOWN, speed = STARTING_SPEED \<rparr>)"

definition isSkiing :: "Skier \<Rightarrow> bool" where
  "isSkiing s = (state s = Some STATE_SKIING)"

definition isJumping :: "Skier \<Rightarrow> bool" where
  "isJumping s = (state s = Some STATE_JUMPING)"

definition isCrashed :: "Skier \<Rightarrow> bool" where
  "isCrashed s = (state s = Some STATE_CRASHED)"

definition isDead :: "Skier \<Rightarrow> bool" where
  "isDead s = (state s = Some STATE_DEAD)"

definition setDirectionalImage :: "Skier \<Rightarrow> Skier" where
  "setDirectionalImage s = s\<lparr>imageName := DIRECTION_IMAGES (direction s)\<rparr>"

definition setDirection :: "int \<Rightarrow> Skier \<Rightarrow> Skier" where
  "setDirection d s = setDirectionalImage (s\<lparr>direction := d\<rparr>)"

definition moveSkierLeft :: "Skier \<Rightarrow> Skier" where
  "moveSkierLeft s = s\<lparr>position := (position s)\<lparr>x := x (position s) - STARTING_SPEED\<rparr>\<rparr>"

definition moveSkierLeftDown :: "real \<Rightarrow> Skier \<Rightarrow> Skier" where
  "moveSkierLeftDown DIAGONAL_SPEED_REDUCER s =
     (let s1 = s\<lparr>position := (position s)\<lparr>x := x (position s) - speed s / DIAGONAL_SPEED_REDUCER\<rparr>\<rparr>
      in s1\<lparr>position := (position s1)\<lparr>y := y (position s1) + speed s1 / DIAGONAL_SPEED_REDUCER\<rparr>\<rparr>)"

definition moveSkierDown :: "Skier \<Rightarrow> Skier" where
  "moveSkierDown s = s\<lparr>position := (position s)\<lparr>y := y (position s) + speed s\<rparr>\<rparr>"

definition moveSkierRightDown :: "real \<Rightarrow> Skier \<Rightarrow> Skier" where
  "moveSkierRightDown DIAGONAL_SPEED_REDUCER s =
     (let s1 = s\<lparr>position := (position s)\<lparr>x := x (position s) + speed s / DIAGONAL_SPEED_REDUCER\<rparr>\<rparr>
      in s1\<lparr>position := (position s1)\<lparr>y := y (position s1) + speed s1 / DIAGONAL_SPEED_REDUCER\<rparr>\<rparr>)"

definition moveSkierRight :: "Skier \<Rightarrow> Skier" where
  "moveSkierRight s = s\<lparr>position := (position s)\<lparr>x := x (position s) + STARTING_SPEED\<rparr>\<rparr>"

definition moveSkierUp :: "Skier \<Rightarrow> Skier" where
  "moveSkierUp s = s\<lparr>position := (position s)\<lparr>y := y (position s) - STARTING_SPEED\<rparr>\<rparr>"

text \<open>\<^verbatim>\<open>Skier.move\<close>: the \<^verbatim>\<open>switch\<close> on the heading, which has no default case.\<close>

definition move :: "real \<Rightarrow> Skier \<Rightarrow> Skier" where
  "move DIAGONAL_SPEED_REDUCER s =
     (if direction s = DIRECTION_LEFT_DOWN then moveSkierLeftDown DIAGONAL_SPEED_REDUCER s
      else if direction s = DIRECTION_DOWN then moveSkierDown s
      else if direction s = DIRECTION_RIGHT_DOWN then moveSkierRightDown DIAGONAL_SPEED_REDUCER s
      else s)"

definition recoverFromCrash :: "int \<Rightarrow> Skier \<Rightarrow> Skier" where
  "recoverFromCrash newDirection s =
     setDirection newDirection (s\<lparr>state := Some STATE_SKIING, speed := STARTING_SPEED\<rparr>)"

definition continueFromJump :: "Skier \<Rightarrow> Skier" where
  "continueFromJump s =
     setDirection DIRECTION_DOWN (s\<lparr>state := Some STATE_SKIING, speed := STARTING_SPEED\<rparr>)"

definition run_callback :: "skier_callback \<Rightarrow> Skier \<Rightarrow> Skier" where
  "run_callback cb s = (case cb of ContinueFromJump \<Rightarrow> continueFromJump s)"

definition crash :: "Skier \<Rightarrow> Skier" where
  "crash s = s\<lparr>state := Some STATE_CRASHED, speed := 0, imageName := Some SKIER_CRASH\<rparr>"

definition die :: "Skier \<Rightarrow> Skier" where
  "die s = s\<lparr>state := Some STATE_DEAD, speed := 0\<rparr>"

definition turnLeft :: "Skier \<Rightarrow> Skier" where
  "turnLeft s =
     (if \<not> isJumping s then
        (let s1 = (if isCrashed s then recoverFromCrash DIRECTION_LEFT s else s)
         in if direction s1 = DIRECTION_LEFT then moveSkierLeft s1
            else setDirection (direction s1 - 1) s1)
      else s)"

definition turnRight :: "Skier \<Rightarrow> Skier" where
  "turnRight s =
     (if \<not> isJumping s then
        (let s1 = (if isCrashed s then recoverFromCrash DIRECTION_RIGHT s else s)
         in if direction s1 = DIRECTION_RIGHT then moveSkierRight s1
            else setDirection (direction s1 + 1) s1)
      else s)"

definition turnUp :: "Skier \<Rightarrow> Skier" where
  "turnUp s =
     (if \<not> isJumping s then
        (if isCrashed s then s
         else if direction s = DIRECTION_LEFT \<or> direction s = DIRECTION_RIGHT then moveSkierUp s
         else s)
      else s)"

definition turnDown :: "Skier \<Rightarrow> Skier" where
  "turnDown s =
     (if \<not> isJumping s then
        (if isCrashed s then s else setDirection DIRECTION_DOWN s)
      else s)"

definition jump :: "Skier \<Rightarrow> Skier" where
  "jump s =
     (if isCrashed s \<or> isJumping s then s
      else setAnimation (s\<lparr>state := Some STATE_JUMPING\<rparr>))"

text \<open>\<^verbatim>\<open>Skier.handleInput\<close>: the value returned and the skier afterwards.\<close>

definition handleInput :: "KEYS \<Rightarrow> string \<Rightarrow> Skier \<Rightarrow> bool \<times> Skier" where
  "handleInput K inputCode s =
     (if isDead s then (False, s)
      else if inputCode = LEFT K then (True, turnLeft s)
      else if inputCode = RIGHT K then (True, turnRight s)
      else if inputCode = UP K then (True, turnUp s)
      else if inputCode = DOWN K then (True, turnDown s)
      else if inputCode = SPACE K then (True, jump s)
      else (False, s))"

text \<open>\<^verbatim>\<open>Skier.getBounds\<close>, the override of \<^verbatim>\<open>Entity.getBounds\<close>.\<close>

definition getBounds_Skier :: "(IMAGE_NAMES option \<Rightarrow> Image option) \<Rightarrow> Skier \<Rightarrow> Rect option" where
  "getBounds_Skier getImage s =
     (case getImage (imageName s) of
        None \<Rightarrow> None
      | Some img \<Rightarrow>
          Some \<lparr> left = x (position s) - width img / 2,
                 top = y (position s) - height img / 2,
                 right = x (position s) + width img / 2,
                 bottom = y (position s) - height img / 4 \<rparr>)"

definition isRockJumpCollision :: "Skier \<Rightarrow> bool \<Rightarrow> IMAGE_NAMES option \<Rightarrow> bool" where
  "isRockJumpCollision s collided imgName =
     (collided \<and> (imgName = Some ROCK1 \<or> imgName = Some ROCK2) \<and> state s = Some STATE_JUMPING)"

definition isJumpRampCollision :: "bool \<Rightarrow> IMAGE_NAMES option \<Rightarrow> bool" where
  "isJumpRampCollision collided imgName = (collided \<and> imgName = Some JUMP_RAMP)"

text \<open>
  The two predicates that \<^verbatim>\<open>Skier.checkIfHitObstacle\<close> hands to \<^verbatim>\<open>Array.find\<close>, and the
  method itself; \<open>find\<close> returns the first obstacle that satisfies the predicate, as
  \<^verbatim>\<open>Array.find\<close> does.
\<close>

definition jumpRampPredicate ::
  "(IMAGE_NAMES option \<Rightarrow> Image option) \<Rightarrow> Rect \<Rightarrow> Obstacle \<Rightarrow> bool" where
  "jumpRampPredicate getImage skierBounds obstacle =
     (case getBounds getImage obstacle of
        None \<Rightarrow> False
      | Some obstacleBounds \<Rightarrow>
          (let collided = intersectTwoRects skierBounds obstacleBounds
           in if isJumpRampCollision collided (imageName obstacle) then True else False))"

definition normalPredicate ::
  "(IMAGE_NAMES option \<Rightarrow> Image option) \<Rightarrow> Skier \<Rightarrow> Rect \<Rightarrow> Obstacle \<Rightarrow> bool" where
  "normalPredicate getImage s skierBounds obstacle =
     (case getBounds getImage obstacle of
        None \<Rightarrow> False
      | Some obstacleBounds \<Rightarrow>
          (let collided = intersectTwoRects skierBounds obstacleBounds
           in if isRockJumpCollision s collided (imageName obstacle) then False else collided))"

definition checkIfHitObstacle ::
  "(IMAGE_NAMES option \<Rightarrow> Image option) \<Rightarrow> Obstacle list \<Rightarrow> Skier \<Rightarrow> Skier" where
  "checkIfHitObstacle getImage obstacles s =
     (case getBounds_Skier getImage s of
        None \<Rightarrow> s
      | Some skierBounds \<Rightarrow>
          (case find (jumpRampPredicate getImage skierBounds) obstacles of
             Some jumpRampCollision \<Rightarrow> jump s
           | None \<Rightarrow>
               (case find (normalPredicate getImage s skierBounds) obstacles of
                  Some normalCollision \<Rightarrow> crash s
                | None \<Rightarrow> s)))"

text \<open>\<^verbatim>\<open>Skier.update\<close>.\<close>

definition update ::
  "real \<Rightarrow> (IMAGE_NAMES option \<Rightarrow> Image option) \<Rightarrow> Obstacle list \<Rightarrow> real \<Rightarrow> Skier \<Rightarrow> Skier" where
  "update DIAGONAL_SPEED_REDUCER getImage obstacles gameTime s =
     (let s1 = (if isSkiing s \<or> isJumping s
                then checkIfHitObstacle getImage obstacles (move DIAGONAL_SPEED_REDUCER s)
                else s)
      in animate run_callback gameTime (250 / STARTING_SPEED) s1)"

subsection \<open>Game\<close>

text \<open>
  The fields of \<^verbatim>\<open>Game\<close> that hold data; the canvas, the image manager and the obstacle
  manager are collaborators. The constant \<^verbatim>\<open>STARTING_SPEED\<close> that \<^verbatim>\<open>Rhino.ts\<close> exports
  (not among the sources) is the argument \<open>STARTING_SPEED_RHINO\<close> of \<open>togglePause\<close>.
\<close>

record ('st, 'img, 'cb) Game =
  gameWindow :: Rect
  gameTime :: real
  paused :: bool
  skier :: Skier
  rhino :: "('st, 'img, 'cb) Rhino"

definition togglePause :: "real \<Rightarrow> ('st, 'img, 'cb) Game \<Rightarrow> ('st, 'img, 'cb) Game" where
  "togglePause STARTING_SPEED_RHINO g =
     (let g1 = g\<lparr>paused := \<not> paused g\<rparr>
      in if \<not> paused g1 then
           g1\<lparr>skier := (skier g1)\<lparr>speed := STARTING_SPEED\<rparr>,
              rhino := (rhino g1)\<lparr>Rhino.speed := STARTING_SPEED_RHINO\<rparr>\<rparr>
         else
           g1\<lparr>skier := (skier g1)\<lparr>speed := 0\<rparr>,
              rhino := (rhino g1)\<lparr>Rhino.speed := 0\<rparr>\<rparr>)"

subsection \<open>Collisions and reachable skiers\<close>

text \<open>
  An obstacle overlaps the rectangle \<open>skierBounds\<close> when its image is loaded and its bounds
  intersect the rectangle: the value of \<^verbatim>\<open>collided\<close> in \<^verbatim>\<open>checkIfHitObstacle\<close>, with the
  guard on \<^verbatim>\<open>obstacleBounds\<close> before it.
\<close>

definition overlaps ::
  "(IMAGE_NAMES option \<Rightarrow> Image option) \<Rightarrow> Rect \<Rightarrow> Obstacle \<Rightarrow> bool" where
  "overlaps getImage skierBounds obstacle =
     (case getBounds getImage obstacle of
        None \<Rightarrow> False
      | Some obstacleBounds \<Rightarrow> intersectTwoRects skierBounds obstacleBounds)"

text \<open>
  The skiers a game can hold: the constructor builds one, the key handler and the frame
  loop call \<^verbatim>\<open>handleInput\<close> and \<^verbatim>\<open>update\<close> on it with any key, obstacles, images and time,
  the rhino calls \<^verbatim>\<open>die\<close>, and \<^verbatim>\<open>Game.togglePause\<close> writes its speed.
\<close>

inductive reachable :: "Skier \<Rightarrow> bool" where
  constructed: "reachable (new_Skier px py)"
| input: "reachable s \<Longrightarrow> reachable (snd (handleInput K inputCode s))"
| frame: "reachable s \<Longrightarrow> reachable (update DIAGONAL_SPEED_REDUCER getImage obstacles t s)"
| died: "reachable s \<Longrightarrow> reachable (die s)"
| pause: "reachable s \<Longrightarrow> reachable (s\<lparr>speed := v\<rparr>)"

subsection \<open>Example inputs\<close>

text \<open>An image manager in which every image is loaded, 10 wide and 20 high.\<close>

definition all_loaded :: "IMAGE_NAMES option \<Rightarrow> Image option" where
  "all_loaded n = (case n of None \<Rightarrow> None | Some _ \<Rightarrow> Some \<lparr> width = 10, height = 20 \<rparr>)"

text \<open>
  An entity that carries a counter, a callback that increments the counter, and on the
  entity a running non-looping animation of three frames with that callback.
\<close>

definition count_callback ::
  "'cb \<Rightarrow> ('st, 'img, 'cb, nat) Entity_scheme \<Rightarrow> ('st, 'img, 'cb, nat) Entity_scheme" where
  "count_callback cb e = e\<lparr>Entity.more := Suc (Entity.more e)\<rparr>"

definition three_frames :: "(STATES, IMAGE_NAMES, unit, nat) Entity_scheme" where
  "three_frames =
     Entity.extend
       ((new_Entity 0 0 (Some SKIER_JUMP1) None)
          \<lparr>curAnimation := Some \<lparr> images = [SKIER_JUMP1, SKIER_JUMP2, SKIER_JUMP3],
                                  looping = False, callback = Some () \<rparr>\<rparr>)
       (0::nat)"

text \<open>An obstacle of the given kind at the origin, where a new skier stands.\<close>

definition obstacle_at_origin :: "IMAGE_NAMES \<Rightarrow> Obstacle" where
  "obstacle_at_origin n = new_Entity 0 0 (Some n) None"

text \<open>Key codes as a browser reports them in \<^verbatim>\<open>KeyboardEvent.code\<close>.\<close>

definition example_KEYS :: KEYS where
  "example_KEYS = \<lparr> LEFT = ''ArrowLeft'', RIGHT = ''ArrowRight'', UP = ''ArrowUp'',
       DOWN = ''ArrowDown'', SPACE = ''Space'' \<rparr>"

text \<open>
  A running game as \<^verbatim>\<open>Game.init\<close> sets it up: not paused, the skier at the origin and
  the rhino at (-500, -2000); the rhino's speed and the game window are example values.
\<close>

definition example_game :: "(STATES, IMAGE_NAMES, unit) Game" where
  "example_game =
     \<lparr> gameWindow = \<lparr> left = - 400, top = - 300, right = 400, bottom = 300 \<rparr>,
       gameTime = 0,
       paused = False,
       skier = new_Skier 0 0,
       rhino = Entity.extend (new_Entity (- 500) (- 2000) None None) \<lparr> Rhino.speed = 10 \<rparr> \<rparr>"

section \<open>Properties\<close>

lemmas skier_defs = new_Skier_def new_Entity_def setupAnimations_def jump_def die_def
  isCrashed_def isJumping_def isSkiing_def isDead_def setAnimation_def js_index_def
  IMAGES_JUMPING_def Entity.extend_def STARTING_SPEED_def
  DIRECTION_LEFT_def DIRECTION_LEFT_DOWN_def DIRECTION_DOWN_def DIRECTION_RIGHT_DOWN_def
  DIRECTION_RIGHT_def

lemmas turn_defs = turnLeft_def turnRight_def turnUp_def turnDown_def recoverFromCrash_def
  setDirection_def setDirectionalImage_def DIRECTION_IMAGES_def
  moveSkierLeft_def moveSkierRight_def moveSkierUp_def

subsection \<open>Entity: animations and bounds\<close>

text \<open>
  C4, as the claim states it, fails. A skier that jumped and then died has the jump
  animation running and no animation registered for its state DEAD; \<open>setAnimation\<close> on it
  does change the entity: the current animation is cleared.
\<close>

theorem setAnimation_unregistered_counterexample:
  "animations (die (jump (new_Skier 0 0))) STATE_DEAD = None \<and>
   state (die (jump (new_Skier 0 0))) = Some STATE_DEAD \<and>
   curAnimation (die (jump (new_Skier 0 0))) =
     Some \<lparr> images = IMAGES_JUMPING, looping = False, callback = Some ContinueFromJump \<rparr> \<and>
   curAnimation (setAnimation (die (jump (new_Skier 0 0)))) = None \<and>
   setAnimation (die (jump (new_Skier 0 0))) \<noteq> die (jump (new_Skier 0 0))"
proof -
  have "curAnimation (die (jump (new_Skier 0 0))) =
     Some \<lparr> images = IMAGES_JUMPING, looping = False, callback = Some ContinueFromJump \<rparr>"
    by (simp add: skier_defs)
  moreover have "curAnimation (setAnimation (die (jump (new_Skier 0 0)))) = None"
    by (simp add: skier_defs)
  moreover have "animations (die (jump (new_Skier 0 0))) STATE_DEAD = None"
    by (simp add: skier_defs)
  moreover have "state (die (jump (new_Skier 0 0))) = Some STATE_DEAD"
    by (simp add: skier_defs)
  ultimately show ?thesis by (metis option.distinct(1))
qed

text \<open>
  C4, amended: for every entity whose state tag has no animation registered (or that has
  no state tag), \<open>setAnimation\<close> clears the current animation, so a prior animation stops,
  and changes nothing else: the frame index, the time of the last frame and the displayed
  image stay as they are.
\<close>

theorem setAnimation_unregistered:
  assumes "case state e of None \<Rightarrow> True | Some st \<Rightarrow> animations e st = None"
  shows "setAnimation e = e\<lparr>curAnimation := None\<rparr>"
  using assms by (simp add: setAnimation_def split: option.splits)

theorem setAnimation_unregistered_witness:
  "(case state (die (jump (new_Skier 0 0))) of None \<Rightarrow> True
    | Some st \<Rightarrow> animations (die (jump (new_Skier 0 0))) st = None) \<and>
   setAnimation (die (jump (new_Skier 0 0))) = (die (jump (new_Skier 0 0)))\<lparr>curAnimation := None\<rparr>"
proof -
  have h: "case state (die (jump (new_Skier 0 0))) of None \<Rightarrow> True
    | Some st \<Rightarrow> animations (die (jump (new_Skier 0 0))) st = None"
    by (simp add: skier_defs)
  show ?thesis using h setAnimation_unregistered [OF h] by simp
qed

text \<open>
  C5, as the claim states it, fails. With an image 10 wide and 20 high, an entity at the
  origin has the bounds (-5, -10, 5, 0), not the rectangle (-5, -10, 5, 10) that is centred
  on the position with the full image height; the skier at the origin has the bounds
  (-5, -10, 5, -5), whose bottom edge is a quarter of the image height below the top edge,
  not three quarters (which would be 5).
\<close>

theorem getBounds_counterexample:
  "getBounds all_loaded (new_Entity 0 0 (Some TREE) None :: Obstacle)
     = Some \<lparr> left = - 5, top = - 10, right = 5, bottom = 0 \<rparr> \<and>
   getBounds all_loaded (new_Entity 0 0 (Some TREE) None :: Obstacle)
     \<noteq> Some \<lparr> left = - 5, top = - 10, right = 5, bottom = 10 \<rparr> \<and>
   getBounds_Skier all_loaded (new_Skier 0 0)
     = Some \<lparr> left = - 5, top = - 10, right = 5, bottom = - 5 \<rparr> \<and>
   getBounds_Skier all_loaded (new_Skier 0 0)
     \<noteq> Some \<lparr> left = - 5, top = - 10, right = 5, bottom = 5 \<rparr>"
  by (simp add: getBounds_def getBounds_Skier_def all_loaded_def skier_defs)

text \<open>
  C5, amended: \<open>getBounds\<close> returns null exactly when the current image is not loaded,
  for the default entity and for the skier. Otherwise the rectangle is centred on the
  position horizontally and as wide as the image, its top edge is half the image height
  above the position, and its bottom edge is at the position's y for the default entity
  (the upper half of the image, half the image height) and a quarter of the image height
  above the position for the skier (the upper quarter of the image).
\<close>

theorem getBounds_top_part_of_image:
  "(getBounds getImage e = None \<longleftrightarrow> getImage (imageName e) = None) \<and>
   (getBounds_Skier getImage s = None \<longleftrightarrow> getImage (imageName s) = None) \<and>
   (\<forall>img. getImage (imageName e) = Some img \<longrightarrow>
      (\<exists>r. getBounds getImage e = Some r \<and>
        (left r + right r) / 2 = x (position e) \<and> right r - left r = width img \<and>
        top r = y (position e) - height img / 2 \<and> bottom r = y (position e) \<and>
        bottom r - top r = height img / 2)) \<and>
   (\<forall>img. getImage (imageName s) = Some img \<longrightarrow>
      (\<exists>r. getBounds_Skier getImage s = Some r \<and>
        (left r + right r) / 2 = x (position s) \<and> right r - left r = width img \<and>
        top r = y (position s) - height img / 2 \<and> bottom r = y (position s) - height img / 4 \<and>
        bottom r - top r = height img / 4))"
  by (simp add: getBounds_def getBounds_Skier_def split: option.splits)

theorem getBounds_top_part_of_image_witness:
  "all_loaded (imageName (new_Entity 0 0 (Some TREE) None :: Obstacle))
      = Some \<lparr> width = 10, height = 20 \<rparr> \<and>
   all_loaded (imageName (new_Skier 0 0)) = Some \<lparr> width = 10, height = 20 \<rparr> \<and>
   (\<exists>r. getBounds all_loaded (new_Entity 0 0 (Some TREE) None :: Obstacle) = Some r \<and>
        bottom r - top r = 10) \<and>
   (\<exists>r. getBounds_Skier all_loaded (new_Skier 0 0) = Some r \<and> bottom r - top r = 5)"
proof -
  let ?E = "new_Entity 0 0 (Some TREE) None :: Obstacle"
  let ?S = "new_Skier 0 0"
  note t = getBounds_top_part_of_image [of all_loaded ?E ?S]
  have g: "all_loaded (imageName ?E) = Some \<lparr> width = 10, height = 20 \<rparr>"
    and h: "all_loaded (imageName ?S) = Some \<lparr> width = 10, height = 20 \<rparr>"
    by (simp_all add: all_loaded_def skier_defs)
  from t g obtain r where r: "getBounds all_loaded ?E = Some r"
    "bottom r - top r = height \<lparr> width = 10, height = 20 \<rparr> / 2"
    by blast
  from t h obtain q where q: "getBounds_Skier all_loaded ?S = Some q"
    "bottom q - top q = height \<lparr> width = 10, height = 20 \<rparr> / 4"
    by blast
  from r q g h show ?thesis by simp
qed

text \<open>One frame advance, in the three cases of \<open>nextAnimationFrame\<close>.\<close>

lemma nextAnimationFrame_inside:
  assumes "curAnimation e = Some a" "curAnimationFrame e + 1 < int (length (images a))"
  shows "nextAnimationFrame run t e =
     e\<lparr>curAnimationFrameTime := t, curAnimationFrame := curAnimationFrame e + 1,
       imageName := js_index (images a) (curAnimationFrame e + 1)\<rparr>"
  using assms by (simp add: nextAnimationFrame_def Let_def)

lemma nextAnimationFrame_finish:
  assumes "curAnimation e = Some a" "int (length (images a)) \<le> curAnimationFrame e + 1"
    "\<not> looping a"
  shows "nextAnimationFrame run t e =
     (case callback a of
        None \<Rightarrow> e\<lparr>curAnimationFrameTime := t, curAnimationFrame := curAnimationFrame e + 1,
                   curAnimation := None\<rparr>
      | Some cb \<Rightarrow> run cb (e\<lparr>curAnimationFrameTime := t,
                   curAnimationFrame := curAnimationFrame e + 1, curAnimation := None\<rparr>))"
  using assms
  by (simp add: nextAnimationFrame_def finishAnimation_def Let_def split: option.splits)

lemma nextAnimationFrame_wrap:
  assumes "curAnimation e = Some a" "int (length (images a)) \<le> curAnimationFrame e + 1"
    "looping a"
  shows "nextAnimationFrame run t e =
     e\<lparr>curAnimationFrameTime := t, curAnimationFrame := 0, imageName := js_index (images a) 0\<rparr>"
  using assms by (simp add: nextAnimationFrame_def Let_def)

text \<open>
  C6: an entity runs an animation with the frames [A, B, C] and is at frame index 0. The
  first advance shows B and the second shows C, without running any callback. The third
  advance of a non-looping animation clears the current animation, leaves the image at C
  and runs the completion callback, if there is one, once on the entity so updated; the
  third advance of a looping animation sets the frame index to 0 and shows A again.
\<close>

theorem nextAnimationFrame_three_frames:
  assumes a: "curAnimation e = Some a" and i: "images a = [A, B, C]"
    and f: "curAnimationFrame e = 0"
  shows "nextAnimationFrame run t1 e =
           e\<lparr>curAnimationFrameTime := t1, curAnimationFrame := 1, imageName := Some B\<rparr> \<and>
         nextAnimationFrame run t2 (nextAnimationFrame run t1 e) =
           e\<lparr>curAnimationFrameTime := t2, curAnimationFrame := 2, imageName := Some C\<rparr> \<and>
         nextAnimationFrame run t3 (nextAnimationFrame run t2 (nextAnimationFrame run t1 e)) =
           (if looping a then
              e\<lparr>curAnimationFrameTime := t3, curAnimationFrame := 0, imageName := Some A\<rparr>
            else case callback a of
              None \<Rightarrow> e\<lparr>imageName := Some C, curAnimationFrameTime := t3,
                        curAnimationFrame := 3, curAnimation := None\<rparr>
            | Some cb \<Rightarrow> run cb (e\<lparr>imageName := Some C, curAnimationFrameTime := t3,
                        curAnimationFrame := 3, curAnimation := None\<rparr>))"
proof -
  have 1: "nextAnimationFrame run t1 e =
           e\<lparr>curAnimationFrameTime := t1, curAnimationFrame := 1, imageName := Some B\<rparr>"
    using a i f by (simp add: nextAnimationFrame_inside js_index_def)
  have 2: "nextAnimationFrame run t2 (nextAnimationFrame run t1 e) =
           e\<lparr>curAnimationFrameTime := t2, curAnimationFrame := 2, imageName := Some C\<rparr>"
    unfolding 1 using a i f by (simp add: nextAnimationFrame_inside js_index_def)
  have 3: "nextAnimationFrame run t3 (nextAnimationFrame run t2 (nextAnimationFrame run t1 e)) =
           (if looping a then
              e\<lparr>curAnimationFrameTime := t3, curAnimationFrame := 0, imageName := Some A\<rparr>
            else case callback a of
              None \<Rightarrow> e\<lparr>imageName := Some C, curAnimationFrameTime := t3,
                        curAnimationFrame := 3, curAnimation := None\<rparr>
            | Some cb \<Rightarrow> run cb (e\<lparr>imageName := Some C, curAnimationFrameTime := t3,
                        curAnimationFrame := 3, curAnimation := None\<rparr>))"
  proof (cases "looping a")
    case True
    then show ?thesis unfolding 2 using a i f
      by (simp add: nextAnimationFrame_wrap js_index_def)
  next
    case False
    then show ?thesis unfolding 2 using a i f
      by (simp add: nextAnimationFrame_finish split: option.splits)
  qed
  from 1 2 3 show ?thesis by blast
qed

text \<open>
  On the entity with the counter: after two advances the image is the third frame and the
  counter is still 0; the third advance clears the animation and leaves the counter at 1.
\<close>

theorem nextAnimationFrame_three_frames_witness:
  "curAnimation three_frames = Some \<lparr> images = [SKIER_JUMP1, SKIER_JUMP2, SKIER_JUMP3],
                                  looping = False, callback = Some () \<rparr> \<and>
   curAnimationFrame three_frames = 0 \<and>
   imageName (nextAnimationFrame count_callback 200
     (nextAnimationFrame count_callback 100 three_frames)) = Some SKIER_JUMP3 \<and>
   Entity.more (nextAnimationFrame count_callback 200
     (nextAnimationFrame count_callback 100 three_frames)) = 0 \<and>
   nextAnimationFrame count_callback 300 (nextAnimationFrame count_callback 200
     (nextAnimationFrame count_callback 100 three_frames)) =
     three_frames\<lparr>imageName := Some SKIER_JUMP3, curAnimationFrameTime := 300,
       curAnimationFrame := 3, curAnimation := None, Entity.more := 1\<rparr>"
proof -
  let ?a = "\<lparr> images = [SKIER_JUMP1, SKIER_JUMP2, SKIER_JUMP3],
                                  looping = False, callback = Some () \<rparr>"
  have a: "curAnimation three_frames = Some ?a"
    and f: "curAnimationFrame three_frames = 0"
    and m: "Entity.more three_frames = 0"
    by (simp_all add: three_frames_def new_Entity_def Entity.extend_def)
  have i: "images ?a = [SKIER_JUMP1, SKIER_JUMP2, SKIER_JUMP3]" by simp
  note t = nextAnimationFrame_three_frames [OF a i f, of count_callback 100 200 300]
  from t have t2: "nextAnimationFrame count_callback 200
       (nextAnimationFrame count_callback 100 three_frames) =
     three_frames\<lparr>curAnimationFrameTime := 200, curAnimationFrame := 2,
       imageName := Some SKIER_JUMP3\<rparr>"
    by blast
  from t [THEN conjunct2, THEN conjunct2] have t3:
    "nextAnimationFrame count_callback 300 (nextAnimationFrame count_callback 200
       (nextAnimationFrame count_callback 100 three_frames)) =
     count_callback () (three_frames\<lparr>imageName := Some SKIER_JUMP3,
       curAnimationFrameTime := 300, curAnimationFrame := 3, curAnimation := None\<rparr>)"
    by simp
  show ?thesis
    apply (subst t3)
    apply (simp only: t2)
    apply (simp add: count_callback_def a f m)
    done
qed

subsection \<open>Skier: collisions\<close>

lemmas check_defs = getBounds_Skier_def getBounds_def all_loaded_def
  intersectTwoRects_def overlaps_def obstacle_at_origin_def

text \<open>The two predicates handed to \<^verbatim>\<open>find\<close>, in terms of \<open>overlaps\<close>.\<close>

lemma jumpRampPredicate_iff:
  "jumpRampPredicate getImage sb obstacle \<longleftrightarrow>
     overlaps getImage sb obstacle \<and> imageName obstacle = Some JUMP_RAMP"
  by (simp add: jumpRampPredicate_def overlaps_def isJumpRampCollision_def Let_def
      split: option.splits)

lemma normalPredicate_iff:
  "normalPredicate getImage s sb obstacle \<longleftrightarrow>
     overlaps getImage sb obstacle \<and>
     \<not> ((imageName obstacle = Some ROCK1 \<or> imageName obstacle = Some ROCK2) \<and> isJumping s)"
  by (auto simp: normalPredicate_def overlaps_def isRockJumpCollision_def isJumping_def Let_def
      split: option.splits)

lemma find_Some_if: "z \<in> set zs \<Longrightarrow> P z \<Longrightarrow> \<exists>r. find P zs = Some r"
  by (cases "find P zs") (auto simp: find_None_iff)

text \<open>
  C2: a skier is SKIING, its image is loaded, and some obstacle of the active set is a jump
  ramp whose bounds overlap the skier's. Then \<open>checkIfHitObstacle\<close> puts the skier into
  the state JUMPING and starts the jump animation (the registered animation becomes the
  current one, at frame 0, showing its first image), whatever else overlaps: speed and
  position are untouched and there is no crash. The jump animation is the one that the
  constructor registers.
\<close>

theorem checkIfHitObstacle_jump_ramp:
  assumes skiing: "isSkiing s"
    and bounds: "getBounds_Skier getImage s = Some skierBounds"
    and ramp: "ramp \<in> set obstacles" "imageName ramp = Some JUMP_RAMP"
      "overlaps getImage skierBounds ramp"
    and registered: "animations s STATE_JUMPING =
      Some \<lparr> images = IMAGES_JUMPING, looping = False, callback = Some ContinueFromJump \<rparr>"
  shows "checkIfHitObstacle getImage obstacles s =
     s\<lparr>state := Some STATE_JUMPING,
       curAnimation :=
         Some \<lparr> images = IMAGES_JUMPING, looping = False, callback = Some ContinueFromJump \<rparr>,
       curAnimationFrame := 0,
       imageName := Some SKIER_JUMP1\<rparr>"
proof -
  from ramp have "jumpRampPredicate getImage skierBounds ramp"
    by (simp add: jumpRampPredicate_iff)
  with ramp(1) obtain r where "find (jumpRampPredicate getImage skierBounds) obstacles = Some r"
    using find_Some_if [of ramp obstacles "jumpRampPredicate getImage skierBounds"] by blast
  then have "checkIfHitObstacle getImage obstacles s = jump s"
    using bounds by (simp add: checkIfHitObstacle_def)
  also have "jump s = s\<lparr>state := Some STATE_JUMPING,
       curAnimation :=
         Some \<lparr> images = IMAGES_JUMPING, looping = False, callback = Some ContinueFromJump \<rparr>,
       curAnimationFrame := 0,
       imageName := Some SKIER_JUMP1\<rparr>"
    using skiing registered
    by (simp add: jump_def isSkiing_def isCrashed_def isJumping_def setAnimation_def
        js_index_def IMAGES_JUMPING_def)
  finally show ?thesis .
qed

text \<open>A tree and a jump ramp both overlap a new skier, the tree first in the list: it jumps.\<close>

theorem checkIfHitObstacle_jump_ramp_witness:
  "isSkiing (new_Skier 0 0) \<and>
   getBounds_Skier all_loaded (new_Skier 0 0) =
     Some \<lparr> left = - 5, top = - 10, right = 5, bottom = - 5 \<rparr> \<and>
   overlaps all_loaded \<lparr> left = - 5, top = - 10, right = 5, bottom = - 5 \<rparr>
     (obstacle_at_origin TREE) \<and>
   overlaps all_loaded \<lparr> left = - 5, top = - 10, right = 5, bottom = - 5 \<rparr>
     (obstacle_at_origin JUMP_RAMP) \<and>
   checkIfHitObstacle all_loaded [obstacle_at_origin TREE, obstacle_at_origin JUMP_RAMP]
       (new_Skier 0 0) =
     (new_Skier 0 0)\<lparr>state := Some STATE_JUMPING,
       curAnimation :=
         Some \<lparr> images = IMAGES_JUMPING, looping = False, callback = Some ContinueFromJump \<rparr>,
       curAnimationFrame := 0,
       imageName := Some SKIER_JUMP1\<rparr>"
proof -
  let ?sb = "\<lparr> left = - 5, top = - 10, right = 5, bottom = - 5 \<rparr>"
  have skiing: "isSkiing (new_Skier 0 0)"
    by (simp add: skier_defs)
  have bounds: "getBounds_Skier all_loaded (new_Skier 0 0) = Some ?sb"
    by (simp add: check_defs skier_defs)
  have tree: "overlaps all_loaded ?sb (obstacle_at_origin TREE)"
    by (simp add: check_defs new_Entity_def)
  have ramp: "obstacle_at_origin JUMP_RAMP
      \<in> set [obstacle_at_origin TREE, obstacle_at_origin JUMP_RAMP]"
    "imageName (obstacle_at_origin JUMP_RAMP) = Some JUMP_RAMP"
    "overlaps all_loaded ?sb (obstacle_at_origin JUMP_RAMP)"
    by (simp_all add: check_defs new_Entity_def)
  have registered: "animations (new_Skier 0 0) STATE_JUMPING =
      Some \<lparr> images = IMAGES_JUMPING, looping = False, callback = Some ContinueFromJump \<rparr>"
    by (simp add: new_Skier_def setupAnimations_def)
  from checkIfHitObstacle_jump_ramp [OF skiing bounds ramp registered] skiing bounds tree ramp
  show ?thesis by blast
qed

text \<open>
  C3: the skier's image is loaded and no jump ramp overlaps the skier. If the skier is
  JUMPING and every overlapping obstacle is a rock, \<open>checkIfHitObstacle\<close> changes
  nothing. If some obstacle overlaps that is not a rock met while JUMPING, the skier becomes
  CRASHED, its speed 0 and its image the crash pose, and nothing else changes.
\<close>

theorem checkIfHitObstacle_normal_pass:
  assumes bounds: "getBounds_Skier getImage s = Some skierBounds"
    and no_ramp: "\<forall>obstacle \<in> set obstacles.
        overlaps getImage skierBounds obstacle \<longrightarrow> imageName obstacle \<noteq> Some JUMP_RAMP"
  shows "(isJumping s \<and>
          (\<forall>obstacle \<in> set obstacles. overlaps getImage skierBounds obstacle \<longrightarrow>
              imageName obstacle = Some ROCK1 \<or> imageName obstacle = Some ROCK2)
          \<longrightarrow> checkIfHitObstacle getImage obstacles s = s) \<and>
         ((\<exists>obstacle \<in> set obstacles. overlaps getImage skierBounds obstacle \<and>
              \<not> (isJumping s \<and>
                 (imageName obstacle = Some ROCK1 \<or> imageName obstacle = Some ROCK2)))
          \<longrightarrow> checkIfHitObstacle getImage obstacles s =
                s\<lparr>state := Some STATE_CRASHED, speed := 0, imageName := Some SKIER_CRASH\<rparr>)"
proof -
  have none: "find (jumpRampPredicate getImage skierBounds) obstacles = None"
    using no_ramp by (auto simp: find_None_iff jumpRampPredicate_iff)
  have excused: "checkIfHitObstacle getImage obstacles s = s"
    if "isJumping s" "\<forall>obstacle \<in> set obstacles. overlaps getImage skierBounds obstacle \<longrightarrow>
              imageName obstacle = Some ROCK1 \<or> imageName obstacle = Some ROCK2"
  proof -
    from that have "find (normalPredicate getImage s skierBounds) obstacles = None"
      by (auto simp: find_None_iff normalPredicate_iff)
    with none bounds show ?thesis by (simp add: checkIfHitObstacle_def)
  qed
  have crashed: "checkIfHitObstacle getImage obstacles s =
                s\<lparr>state := Some STATE_CRASHED, speed := 0, imageName := Some SKIER_CRASH\<rparr>"
    if "\<exists>obstacle \<in> set obstacles. overlaps getImage skierBounds obstacle \<and>
              \<not> (isJumping s \<and>
                 (imageName obstacle = Some ROCK1 \<or> imageName obstacle = Some ROCK2))"
  proof -
    from that obtain ob where "ob \<in> set obstacles" "normalPredicate getImage s skierBounds ob"
      by (auto simp: normalPredicate_iff)
    then obtain r where "find (normalPredicate getImage s skierBounds) obstacles = Some r"
      using find_Some_if [of ob obstacles "normalPredicate getImage s skierBounds"] by blast
    with none bounds show ?thesis by (simp add: checkIfHitObstacle_def crash_def)
  qed
  from excused crashed show ?thesis by blast
qed

text \<open>A jumping skier over a rock is left alone; a skiing skier in a tree crashes.\<close>

theorem checkIfHitObstacle_normal_pass_witness:
  "getBounds_Skier all_loaded (jump (new_Skier 0 0)) =
     Some \<lparr> left = - 5, top = - 10, right = 5, bottom = - 5 \<rparr> \<and>
   isJumping (jump (new_Skier 0 0)) \<and>
   overlaps all_loaded \<lparr> left = - 5, top = - 10, right = 5, bottom = - 5 \<rparr>
     (obstacle_at_origin ROCK1) \<and>
   checkIfHitObstacle all_loaded [obstacle_at_origin ROCK1] (jump (new_Skier 0 0)) =
     jump (new_Skier 0 0) \<and>
   getBounds_Skier all_loaded (new_Skier 0 0) =
     Some \<lparr> left = - 5, top = - 10, right = 5, bottom = - 5 \<rparr> \<and>
   overlaps all_loaded \<lparr> left = - 5, top = - 10, right = 5, bottom = - 5 \<rparr>
     (obstacle_at_origin TREE) \<and>
   checkIfHitObstacle all_loaded [obstacle_at_origin TREE] (new_Skier 0 0) =
     (new_Skier 0 0)\<lparr>state := Some STATE_CRASHED, speed := 0, imageName := Some SKIER_CRASH\<rparr>"
proof -
  let ?sb = "\<lparr> left = - 5, top = - 10, right = 5, bottom = - 5 \<rparr>"
  have jbounds: "getBounds_Skier all_loaded (jump (new_Skier 0 0)) = Some ?sb"
    by (simp add: check_defs skier_defs)
  have jumping: "isJumping (jump (new_Skier 0 0))"
    by (simp add: skier_defs)
  have rock: "overlaps all_loaded ?sb (obstacle_at_origin ROCK1)"
    "imageName (obstacle_at_origin ROCK1) = Some ROCK1"
    by (simp_all add: check_defs new_Entity_def)
  have no_ramp1: "\<forall>obstacle \<in> set [obstacle_at_origin ROCK1].
      overlaps all_loaded ?sb obstacle \<longrightarrow> imageName obstacle \<noteq> Some JUMP_RAMP"
    by (simp add: obstacle_at_origin_def new_Entity_def)
  have rocks: "\<forall>obstacle \<in> set [obstacle_at_origin ROCK1].
      overlaps all_loaded ?sb obstacle \<longrightarrow>
        imageName obstacle = Some ROCK1 \<or> imageName obstacle = Some ROCK2"
    by (simp add: obstacle_at_origin_def new_Entity_def)
  have excused: "checkIfHitObstacle all_loaded [obstacle_at_origin ROCK1] (jump (new_Skier 0 0)) =
     jump (new_Skier 0 0)"
    using checkIfHitObstacle_normal_pass [OF jbounds no_ramp1] jumping rocks by blast
  have bounds: "getBounds_Skier all_loaded (new_Skier 0 0) = Some ?sb"
    by (simp add: check_defs skier_defs)
  have tree: "overlaps all_loaded ?sb (obstacle_at_origin TREE)"
    "imageName (obstacle_at_origin TREE) = Some TREE"
    by (simp_all add: check_defs new_Entity_def)
  have no_ramp2: "\<forall>obstacle \<in> set [obstacle_at_origin TREE].
      overlaps all_loaded ?sb obstacle \<longrightarrow> imageName obstacle \<noteq> Some JUMP_RAMP"
    by (simp add: obstacle_at_origin_def new_Entity_def)
  have hit: "\<exists>obstacle \<in> set [obstacle_at_origin TREE]. overlaps all_loaded ?sb obstacle \<and>
      \<not> (isJumping (new_Skier 0 0) \<and>
         (imageName obstacle = Some ROCK1 \<or> imageName obstacle = Some ROCK2))"
    using tree by simp
  have crashed: "checkIfHitObstacle all_loaded [obstacle_at_origin TREE] (new_Skier 0 0) =
     (new_Skier 0 0)\<lparr>state := Some STATE_CRASHED, speed := 0, imageName := Some SKIER_CRASH\<rparr>"
    using checkIfHitObstacle_normal_pass [OF bounds no_ramp2] hit by blast
  from jbounds jumping rock(1) excused bounds tree(1) crashed show ?thesis by blast
qed

text \<open>
  The table of animations never changes after the constructor: every reachable skier has
  the jump animation registered for the state JUMPING.
\<close>

lemma animations_handleInput: "animations (snd (handleInput K c s)) = animations s"
  by (simp add: handleInput_def turn_defs jump_def setAnimation_def Let_def
      split: option.splits)

lemma animations_checkIfHitObstacle: "animations (checkIfHitObstacle g obs s) = animations s"
  by (simp add: checkIfHitObstacle_def jump_def setAnimation_def crash_def Let_def
      split: option.splits)

lemma animations_move: "animations (move r s) = animations s"
  by (simp add: move_def moveSkierLeftDown_def moveSkierDown_def moveSkierRightDown_def Let_def)

lemma animations_animate: "animations (animate run_callback t f s) = animations s"
  by (simp add: animate_def nextAnimationFrame_def finishAnimation_def run_callback_def
      continueFromJump_def setDirection_def setDirectionalImage_def Let_def
      split: option.splits skier_callback.splits)

lemma animations_update: "animations (update r g obs t s) = animations s"
  by (simp add: update_def Let_def animations_animate animations_checkIfHitObstacle
      animations_move)

lemma reachable_registered:
  assumes "reachable s"
  shows "animations s STATE_JUMPING =
      Some \<lparr> images = IMAGES_JUMPING, looping = False, callback = Some ContinueFromJump \<rparr>"
  using assms
proof (induction rule: reachable.induct)
  case (constructed px py)
  show ?case by (simp add: new_Skier_def setupAnimations_def)
next
  case (input s K inputCode)
  then show ?case by (simp add: animations_handleInput)
next
  case (frame s DIAGONAL_SPEED_REDUCER getImage obstacles t)
  then show ?case by (simp add: animations_update)
next
  case (died s)
  then show ?case by (simp add: die_def)
next
  case (pause s v)
  then show ?case by simp
qed

subsection \<open>Skier: turning and input\<close>

text \<open>
  C7: for every CRASHED skier, \<open>turnLeft\<close> first recovers the skier (state SKIING, speed
  the starting speed, heading fully left and the image for that heading) and then, the
  skier now facing fully left, moves the position one step of the starting speed to the
  left; \<open>turnRight\<close> does the same towards the right.
\<close>

theorem turn_while_crashed:
  assumes "isCrashed s"
  shows "recoverFromCrash DIRECTION_LEFT s =
           s\<lparr>state := Some STATE_SKIING, speed := STARTING_SPEED,
             direction := DIRECTION_LEFT, imageName := Some SKIER_LEFT\<rparr> \<and>
         turnLeft s = moveSkierLeft (recoverFromCrash DIRECTION_LEFT s) \<and>
         turnLeft s =
           s\<lparr>state := Some STATE_SKIING, speed := STARTING_SPEED,
             direction := DIRECTION_LEFT, imageName := Some SKIER_LEFT,
             position := (position s)\<lparr>x := x (position s) - STARTING_SPEED\<rparr>\<rparr> \<and>
         recoverFromCrash DIRECTION_RIGHT s =
           s\<lparr>state := Some STATE_SKIING, speed := STARTING_SPEED,
             direction := DIRECTION_RIGHT, imageName := Some SKIER_RIGHT\<rparr> \<and>
         turnRight s = moveSkierRight (recoverFromCrash DIRECTION_RIGHT s) \<and>
         turnRight s =
           s\<lparr>state := Some STATE_SKIING, speed := STARTING_SPEED,
             direction := DIRECTION_RIGHT, imageName := Some SKIER_RIGHT,
             position := (position s)\<lparr>x := x (position s) + STARTING_SPEED\<rparr>\<rparr>"
  using assms by (simp add: turn_defs skier_defs)

text \<open>A new skier that crashed, then turns: it stands 5 to the left (to the right).\<close>

theorem turn_while_crashed_witness:
  "isCrashed (crash (new_Skier 0 0)) \<and>
   turnLeft (crash (new_Skier 0 0)) =
     (new_Skier 0 0)\<lparr>imageName := Some SKIER_LEFT, direction := 0,
       position := \<lparr> x = - 5, y = 0 \<rparr>\<rparr> \<and>
   turnRight (crash (new_Skier 0 0)) =
     (new_Skier 0 0)\<lparr>imageName := Some SKIER_RIGHT, direction := 4,
       position := \<lparr> x = 5, y = 0 \<rparr>\<rparr>"
proof -
  let ?c = "crash (new_Skier 0 0)"
  have c: "isCrashed ?c"
    by (simp add: crash_def isCrashed_def)
  note t = turn_while_crashed [OF c]
  from t have l: "turnLeft ?c =
           ?c\<lparr>state := Some STATE_SKIING, speed := STARTING_SPEED,
             direction := DIRECTION_LEFT, imageName := Some SKIER_LEFT,
             position := (position ?c)\<lparr>x := x (position ?c) - STARTING_SPEED\<rparr>\<rparr>"
    by blast
  from t have r: "turnRight ?c =
           ?c\<lparr>state := Some STATE_SKIING, speed := STARTING_SPEED,
             direction := DIRECTION_RIGHT, imageName := Some SKIER_RIGHT,
             position := (position ?c)\<lparr>x := x (position ?c) + STARTING_SPEED\<rparr>\<rparr>"
    by blast
  have l': "?c\<lparr>state := Some STATE_SKIING, speed := STARTING_SPEED,
             direction := DIRECTION_LEFT, imageName := Some SKIER_LEFT,
             position := (position ?c)\<lparr>x := x (position ?c) - STARTING_SPEED\<rparr>\<rparr> =
     (new_Skier 0 0)\<lparr>imageName := Some SKIER_LEFT, direction := 0,
       position := \<lparr> x = - 5, y = 0 \<rparr>\<rparr>"
    by (simp add: crash_def skier_defs)
  have r': "?c\<lparr>state := Some STATE_SKIING, speed := STARTING_SPEED,
             direction := DIRECTION_RIGHT, imageName := Some SKIER_RIGHT,
             position := (position ?c)\<lparr>x := x (position ?c) + STARTING_SPEED\<rparr>\<rparr> =
     (new_Skier 0 0)\<lparr>imageName := Some SKIER_RIGHT, direction := 4,
       position := \<lparr> x = 5, y = 0 \<rparr>\<rparr>"
    by (simp add: crash_def skier_defs)
  from c l [unfolded l'] r [unfolded r'] show ?thesis by blast
qed

text \<open>
  C9: \<open>handleInput\<close> returns true exactly when the input code is one of the five key
  codes and the skier is not DEAD; in every other case it returns false and the skier is
  unchanged. The function is total: no branch of the code raises.
\<close>

theorem handleInput_handled:
  "fst (handleInput K inputCode s) =
     (inputCode \<in> {LEFT K, RIGHT K, UP K, DOWN K, SPACE K} \<and> \<not> isDead s) \<and>
   (\<not> (inputCode \<in> {LEFT K, RIGHT K, UP K, DOWN K, SPACE K} \<and> \<not> isDead s) \<longrightarrow>
      snd (handleInput K inputCode s) = s)"
  by (simp add: handleInput_def)

theorem handleInput_handled_witness:
  "\<not> (''KeyQ'' \<in> {LEFT example_KEYS, RIGHT example_KEYS, UP example_KEYS, DOWN example_KEYS,
        SPACE example_KEYS} \<and> \<not> isDead (new_Skier 0 0)) \<and>
   handleInput example_KEYS ''KeyQ'' (new_Skier 0 0) = (False, new_Skier 0 0) \<and>
   \<not> (''ArrowLeft'' \<in> {LEFT example_KEYS, RIGHT example_KEYS, UP example_KEYS,
        DOWN example_KEYS, SPACE example_KEYS} \<and> \<not> isDead (die (new_Skier 0 0))) \<and>
   handleInput example_KEYS ''ArrowLeft'' (die (new_Skier 0 0)) = (False, die (new_Skier 0 0)) \<and>
   fst (handleInput example_KEYS ''ArrowLeft'' (new_Skier 0 0))"
proof -
  have q: "\<not> (''KeyQ'' \<in> {LEFT example_KEYS, RIGHT example_KEYS, UP example_KEYS,
        DOWN example_KEYS, SPACE example_KEYS} \<and> \<not> isDead (new_Skier 0 0))"
    by (simp add: example_KEYS_def)
  have d: "\<not> (''ArrowLeft'' \<in> {LEFT example_KEYS, RIGHT example_KEYS, UP example_KEYS,
        DOWN example_KEYS, SPACE example_KEYS} \<and> \<not> isDead (die (new_Skier 0 0)))"
    by (simp add: die_def isDead_def)
  have l: "''ArrowLeft'' \<in> {LEFT example_KEYS, RIGHT example_KEYS, UP example_KEYS,
        DOWN example_KEYS, SPACE example_KEYS} \<and> \<not> isDead (new_Skier 0 0)"
    by (simp add: example_KEYS_def skier_defs)
  note tq = handleInput_handled [of example_KEYS "''KeyQ''" "new_Skier 0 0"]
  from tq q have "fst (handleInput example_KEYS ''KeyQ'' (new_Skier 0 0)) = False"
    "snd (handleInput example_KEYS ''KeyQ'' (new_Skier 0 0)) = new_Skier 0 0"
    by blast+
  then have 1: "handleInput example_KEYS ''KeyQ'' (new_Skier 0 0) = (False, new_Skier 0 0)"
    by (simp add: prod_eq_iff)
  note td = handleInput_handled [of example_KEYS "''ArrowLeft''" "die (new_Skier 0 0)"]
  from td d have "fst (handleInput example_KEYS ''ArrowLeft'' (die (new_Skier 0 0))) = False"
    "snd (handleInput example_KEYS ''ArrowLeft'' (die (new_Skier 0 0))) = die (new_Skier 0 0)"
    by blast+
  then have 2: "handleInput example_KEYS ''ArrowLeft'' (die (new_Skier 0 0)) =
      (False, die (new_Skier 0 0))"
    by (simp add: prod_eq_iff)
  from handleInput_handled [of example_KEYS "''ArrowLeft''" "new_Skier 0 0"] l
  have 3: "fst (handleInput example_KEYS ''ArrowLeft'' (new_Skier 0 0))"
    by blast
  from q d 1 2 3 show ?thesis by blast
qed

subsection \<open>Game: the pause toggle\<close>

text \<open>
  C8: \<open>togglePause\<close> flips the pause flag and writes the two speeds, 0 when the game
  becomes paused and the two starting speeds when it resumes, and changes nothing else; in
  particular the state tags and positions of skier and rhino stay. Pausing a running game
  and resuming it leaves both speeds at the starting speeds and the game otherwise as it
  was.
\<close>

theorem togglePause_speeds:
  "togglePause STARTING_SPEED_RHINO g =
     (if paused g then
        g\<lparr>paused := False,
          skier := (skier g)\<lparr>speed := STARTING_SPEED\<rparr>,
          rhino := (rhino g)\<lparr>Rhino.speed := STARTING_SPEED_RHINO\<rparr>\<rparr>
      else
        g\<lparr>paused := True,
          skier := (skier g)\<lparr>speed := 0\<rparr>,
          rhino := (rhino g)\<lparr>Rhino.speed := 0\<rparr>\<rparr>) \<and>
   state (skier (togglePause STARTING_SPEED_RHINO g)) = state (skier g) \<and>
   position (skier (togglePause STARTING_SPEED_RHINO g)) = position (skier g) \<and>
   state (rhino (togglePause STARTING_SPEED_RHINO g)) = state (rhino g) \<and>
   position (rhino (togglePause STARTING_SPEED_RHINO g)) = position (rhino g) \<and>
   (\<not> paused g \<longrightarrow>
      togglePause STARTING_SPEED_RHINO (togglePause STARTING_SPEED_RHINO g) =
        g\<lparr>skier := (skier g)\<lparr>speed := STARTING_SPEED\<rparr>,
          rhino := (rhino g)\<lparr>Rhino.speed := STARTING_SPEED_RHINO\<rparr>\<rparr>)"
  by (simp add: togglePause_def Let_def)

theorem togglePause_speeds_witness:
  "\<not> paused example_game \<and>
   speed (skier (togglePause 10 example_game)) = 0 \<and>
   Rhino.speed (rhino (togglePause 10 example_game)) = 0 \<and>
   paused (togglePause 10 example_game) \<and>
   togglePause 10 (togglePause 10 example_game) = example_game"
proof -
  have p: "\<not> paused example_game"
    by (simp add: example_game_def)
  note t = togglePause_speeds [of 10 example_game]
  from t p have 1: "togglePause 10 example_game =
      example_game\<lparr>paused := True,
          skier := (skier example_game)\<lparr>speed := 0\<rparr>,
          rhino := (rhino example_game)\<lparr>Rhino.speed := 0\<rparr>\<rparr>"
    by simp
  from 1 have a: "speed (skier (togglePause 10 example_game)) = 0"
    and b: "Rhino.speed (rhino (togglePause 10 example_game)) = 0"
    and c: "paused (togglePause 10 example_game)"
    by simp_all
  from t p have 2: "togglePause 10 (togglePause 10 example_game) =
        example_game\<lparr>skier := (skier example_game)\<lparr>speed := STARTING_SPEED\<rparr>,
          rhino := (rhino example_game)\<lparr>Rhino.speed := 10\<rparr>\<rparr>"
    by blast
  have 3: "example_game\<lparr>skier := (skier example_game)\<lparr>speed := STARTING_SPEED\<rparr>,
          rhino := (rhino example_game)\<lparr>Rhino.speed := 10\<rparr>\<rparr> = example_game"
    by (simp add: example_game_def skier_defs)
  from p a b c 2 [unfolded 3] show ?thesis by blast
qed

subsection \<open>Skier: the heading stays in range\<close>

lemma direction_setAnimation: "direction (setAnimation s) = direction s"
  by (simp add: setAnimation_def Let_def split: option.splits)

lemma direction_jump: "direction (jump s) = direction s"
  by (simp add: jump_def direction_setAnimation)

lemma direction_move: "direction (move r s) = direction s"
  by (simp add: move_def moveSkierLeftDown_def moveSkierDown_def moveSkierRightDown_def Let_def)

lemma direction_checkIfHitObstacle: "direction (checkIfHitObstacle g obs s) = direction s"
  by (simp add: checkIfHitObstacle_def direction_jump crash_def split: option.splits)

lemma direction_animate:
  "direction (animate run_callback t f s) = direction s \<or>
   direction (animate run_callback t f s) = DIRECTION_DOWN"
  by (simp add: animate_def nextAnimationFrame_def finishAnimation_def run_callback_def
      continueFromJump_def setDirection_def setDirectionalImage_def Let_def
      split: option.splits skier_callback.splits)

lemma direction_update:
  "direction (update r g obs t s) = direction s \<or>
   direction (update r g obs t s) = DIRECTION_DOWN"
  using direction_animate [of t "250 / STARTING_SPEED"
      "if isSkiing s \<or> isJumping s then checkIfHitObstacle g obs (move r s) else s"]
  by (auto simp: update_def Let_def direction_checkIfHitObstacle direction_move)

lemma direction_handleInput:
  assumes "DIRECTION_LEFT \<le> direction s" "direction s \<le> DIRECTION_RIGHT"
  shows "DIRECTION_LEFT \<le> direction (snd (handleInput K c s)) \<and>
         direction (snd (handleInput K c s)) \<le> DIRECTION_RIGHT"
  using assms
  by (simp add: handleInput_def turn_defs direction_jump isCrashed_def isJumping_def
      DIRECTION_LEFT_def DIRECTION_RIGHT_def DIRECTION_DOWN_def Let_def)

lemma DIRECTION_IMAGES_defined:
  assumes "DIRECTION_LEFT \<le> d" "d \<le> DIRECTION_RIGHT"
  shows "DIRECTION_IMAGES d \<in> {Some SKIER_LEFT, Some SKIER_LEFTDOWN, Some SKIER_DOWN,
      Some SKIER_RIGHTDOWN, Some SKIER_RIGHT}"
proof -
  from assms have "d = 0 \<or> d = 1 \<or> d = 2 \<or> d = 3 \<or> d = 4"
    by (simp add: DIRECTION_LEFT_def DIRECTION_RIGHT_def) arith
  then show ?thesis
    by (auto simp: DIRECTION_IMAGES_def skier_defs)
qed

lemma direction_turns:
  "direction (turnLeft s) =
     (if isJumping s then direction s
      else if isCrashed s \<or> direction s = DIRECTION_LEFT then DIRECTION_LEFT
      else direction s - 1)"
  "direction (turnRight s) =
     (if isJumping s then direction s
      else if isCrashed s \<or> direction s = DIRECTION_RIGHT then DIRECTION_RIGHT
      else direction s + 1)"
  "direction (turnDown s) =
     (if isJumping s \<or> isCrashed s then direction s else DIRECTION_DOWN)"
  "direction (turnUp s) = direction s"
  by (simp_all add: turn_defs Let_def)

text \<open>
  C10: the heading of a new skier is straight down (2). \<open>turnLeft\<close> lowers the heading
  by one only when the skier is not already facing fully left, \<open>turnRight\<close> raises it by
  one only when not already fully right, \<open>turnDown\<close> sets straight down. Every
  \<open>handleInput\<close> and every \<open>update\<close> keeps a heading between 0 and 4 in that range, so in
  every reachable skier the heading is one of the five values and the table
  \<open>DIRECTION_IMAGES\<close> is defined at it.
\<close>

theorem direction_in_range:
  "direction (new_Skier px py) = DIRECTION_DOWN \<and>
   direction (turnLeft s) =
     (if isJumping s then direction s
      else if isCrashed s \<or> direction s = DIRECTION_LEFT then DIRECTION_LEFT
      else direction s - 1) \<and>
   direction (turnRight s) =
     (if isJumping s then direction s
      else if isCrashed s \<or> direction s = DIRECTION_RIGHT then DIRECTION_RIGHT
      else direction s + 1) \<and>
   direction (turnDown s) =
     (if isJumping s \<or> isCrashed s then direction s else DIRECTION_DOWN) \<and>
   (DIRECTION_LEFT \<le> direction s \<and> direction s \<le> DIRECTION_RIGHT \<longrightarrow>
      DIRECTION_LEFT \<le> direction (snd (handleInput K inputCode s)) \<and>
      direction (snd (handleInput K inputCode s)) \<le> DIRECTION_RIGHT \<and>
      DIRECTION_LEFT \<le> direction (update DIAGONAL_SPEED_REDUCER getImage obstacles t s) \<and>
      direction (update DIAGONAL_SPEED_REDUCER getImage obstacles t s) \<le> DIRECTION_RIGHT) \<and>
   (reachable s \<longrightarrow>
      direction s \<in> {DIRECTION_LEFT, DIRECTION_LEFT_DOWN, DIRECTION_DOWN,
                       DIRECTION_RIGHT_DOWN, DIRECTION_RIGHT} \<and>
      DIRECTION_IMAGES (direction s) \<noteq> None)"
proof -
  have init: "direction (new_Skier px py) = DIRECTION_DOWN" for px py
    by (simp add: skier_defs)
  have upd: "DIRECTION_LEFT \<le> direction (update r g obs u s') \<and>
      direction (update r g obs u s') \<le> DIRECTION_RIGHT"
    if "DIRECTION_LEFT \<le> direction s'" "direction s' \<le> DIRECTION_RIGHT" for r g obs u s'
    using that direction_update [of r g obs u s']
    by (auto simp: DIRECTION_LEFT_def DIRECTION_RIGHT_def DIRECTION_DOWN_def)
  have inv: "DIRECTION_LEFT \<le> direction s' \<and> direction s' \<le> DIRECTION_RIGHT"
    if "reachable s'" for s'
    using that
  proof (induction rule: reachable.induct)
    case (constructed px py)
    then show ?case
      by (simp add: init DIRECTION_LEFT_def DIRECTION_RIGHT_def DIRECTION_DOWN_def)
  next
    case (input s K inputCode)
    then show ?case using direction_handleInput by blast
  next
    case (frame s DIAGONAL_SPEED_REDUCER getImage obstacles t)
    then show ?case using upd by blast
  next
    case (died s)
    then show ?case by (simp add: die_def)
  next
    case (pause s v)
    then show ?case by simp
  qed
  have range: "direction s \<in> {DIRECTION_LEFT, DIRECTION_LEFT_DOWN, DIRECTION_DOWN,
                       DIRECTION_RIGHT_DOWN, DIRECTION_RIGHT} \<and>
      DIRECTION_IMAGES (direction s) \<noteq> None" if "reachable s"
  proof -
    from inv [OF that] have "direction s = 0 \<or> direction s = 1 \<or> direction s = 2 \<or>
        direction s = 3 \<or> direction s = 4"
      by (simp add: DIRECTION_LEFT_def DIRECTION_RIGHT_def) arith
    moreover from inv [OF that] have "DIRECTION_IMAGES (direction s) \<noteq> None"
      using DIRECTION_IMAGES_defined [of "direction s"] by auto
    ultimately show ?thesis by (auto simp: skier_defs)
  qed
  have inp: "DIRECTION_LEFT \<le> direction s \<and> direction s \<le> DIRECTION_RIGHT \<longrightarrow>
      DIRECTION_LEFT \<le> direction (snd (handleInput K inputCode s)) \<and>
      direction (snd (handleInput K inputCode s)) \<le> DIRECTION_RIGHT \<and>
      DIRECTION_LEFT \<le> direction (update DIAGONAL_SPEED_REDUCER getImage obstacles t s) \<and>
      direction (update DIAGONAL_SPEED_REDUCER getImage obstacles t s) \<le> DIRECTION_RIGHT"
    using direction_handleInput [of s K inputCode]
      upd [of s DIAGONAL_SPEED_REDUCER getImage obstacles t]
    by blast
  from init [of px py] direction_turns(1) [of s] direction_turns(2) [of s]
    direction_turns(3) [of s] inp range
  show ?thesis by blast
qed

text \<open>
  A new skier that turns left once is reachable and faces left-down; from there one more
  key press or one frame keeps the heading in range.
\<close>

theorem direction_in_range_witness:
  "reachable (snd (handleInput example_KEYS ''ArrowLeft'' (new_Skier 0 0))) \<and>
   direction (snd (handleInput example_KEYS ''ArrowLeft'' (new_Skier 0 0))) = DIRECTION_LEFT_DOWN \<and>
   DIRECTION_IMAGES (direction (snd (handleInput example_KEYS ''ArrowLeft'' (new_Skier 0 0))))
     = Some SKIER_LEFTDOWN \<and>
   DIRECTION_LEFT \<le> direction (update 1.4142 all_loaded [] 100
      (snd (handleInput example_KEYS ''ArrowLeft'' (new_Skier 0 0)))) \<and>
   direction (update 1.4142 all_loaded [] 100
      (snd (handleInput example_KEYS ''ArrowLeft'' (new_Skier 0 0)))) \<le> DIRECTION_RIGHT"
proof -
  let ?s = "snd (handleInput example_KEYS ''ArrowLeft'' (new_Skier 0 0))"
  have r: "reachable ?s"
    by (rule reachable.input) (rule reachable.constructed)
  have d: "direction ?s = DIRECTION_LEFT_DOWN"
    by (simp add: handleInput_def example_KEYS_def turn_defs skier_defs)
  have i: "DIRECTION_IMAGES (direction ?s) = Some SKIER_LEFTDOWN"
    unfolding d by (simp add: DIRECTION_IMAGES_def skier_defs)
  have b: "DIRECTION_LEFT \<le> direction ?s \<and> direction ?s \<le> DIRECTION_RIGHT"
    unfolding d by (simp add: skier_defs)
  note t = direction_in_range [of 0 0 ?s example_KEYS "''ArrowLeft''" "1.4142" all_loaded "[]" 100]
  from t r have "DIRECTION_IMAGES (direction ?s) \<noteq> None" by blast
  moreover from t b have "DIRECTION_LEFT \<le> direction (update 1.4142 all_loaded [] 100 ?s) \<and>
     direction (update 1.4142 all_loaded [] 100 ?s) \<le> DIRECTION_RIGHT" by blast
  ultimately show ?thesis using r d i by blast
qed

subsection \<open>Skier: the state DEAD\<close>

text \<open>
  \<open>update\<close> on a dead skier only advances the animation. Without a running animation
  a dead skier stays as it is under \<open>update\<close> and \<open>handleInput\<close>; with the jump animation
  still running, the frame that ends the animation runs \<open>continueFromJump\<close>.
\<close>

lemma update_dead:
  assumes "isDead s"
  shows "update r g obs t s = animate run_callback t 50 s"
  using assms by (simp add: update_def isDead_def isSkiing_def isJumping_def STARTING_SPEED_def)

lemma animate_due:
  assumes "curAnimation e = Some a" "t - curAnimationFrameTime e > f"
  shows "animate run t f e = nextAnimationFrame run t e"
  using assms by (simp add: animate_def)

lemma update_dead_inside:
  assumes "isDead s" "curAnimation s = Some a" "t - curAnimationFrameTime s > 50"
    "curAnimationFrame s + 1 < int (length (images a))"
  shows "update r g obs t s =
     s\<lparr>curAnimationFrameTime := t, curAnimationFrame := curAnimationFrame s + 1,
       imageName := js_index (images a) (curAnimationFrame s + 1)\<rparr>"
  using assms by (simp add: update_dead animate_due nextAnimationFrame_inside)

lemma update_dead_finish:
  assumes "isDead s" "curAnimation s = Some a" "t - curAnimationFrameTime s > 50"
    "int (length (images a)) \<le> curAnimationFrame s + 1" "\<not> looping a"
    "callback a = Some ContinueFromJump"
  shows "update r g obs t s =
     continueFromJump (s\<lparr>curAnimationFrameTime := t,
       curAnimationFrame := curAnimationFrame s + 1, curAnimation := None\<rparr>)"
  using assms
  by (simp add: update_dead animate_due nextAnimationFrame_finish run_callback_def)

lemma update_dead_step:
  assumes "isDead s" "curAnimation s = Some a" "t - curAnimationFrameTime s > 50"
    "curAnimationFrame s + 1 < int (length (images a))"
  shows "isDead (update r g obs t s) \<and> curAnimation (update r g obs t s) = Some a \<and>
    curAnimationFrame (update r g obs t s) = curAnimationFrame s + 1 \<and>
    curAnimationFrameTime (update r g obs t s) = t"
  using assms by (simp add: update_dead_inside [OF assms] isDead_def)

lemma update_dead_revives:
  assumes "isDead s" "curAnimation s = Some a" "t - curAnimationFrameTime s > 50"
    "int (length (images a)) \<le> curAnimationFrame s + 1" "\<not> looping a"
    "callback a = Some ContinueFromJump"
  shows "state (update r g obs t s) = Some STATE_SKIING \<and>
    speed (update r g obs t s) = STARTING_SPEED"
  by (simp add: update_dead_finish [OF assms] continueFromJump_def setDirection_def
      setDirectionalImage_def)

lemma dead_without_animation:
  assumes "isDead s" "curAnimation s = None"
  shows "update r g obs t s = s" "snd (handleInput K inputCode s) = s"
  using assms by (simp_all add: update_dead animate_def handleInput_def)

text \<open>
  C1 does not hold of the code. A new skier jumps (the key Space) and is killed by \<open>die\<close>
  while the jump animation runs: the state is DEAD. Five frames later, each more than 50 ms
  after the one before, the animation ends and its callback \<open>continueFromJump\<close> puts the
  skier back into the state SKIING at the starting speed.
\<close>

theorem dead_skier_skis_again:
  "reachable (die (snd (handleInput example_KEYS ''Space'' (new_Skier 0 0)))) \<and>
   state (die (snd (handleInput example_KEYS ''Space'' (new_Skier 0 0)))) = Some STATE_DEAD \<and>
   state (update 1.4142 all_loaded [] 500 (update 1.4142 all_loaded [] 400
     (update 1.4142 all_loaded [] 300 (update 1.4142 all_loaded [] 200
       (update 1.4142 all_loaded [] 100
          (die (snd (handleInput example_KEYS ''Space'' (new_Skier 0 0))))))))) =
     Some STATE_SKIING \<and>
   speed (update 1.4142 all_loaded [] 500 (update 1.4142 all_loaded [] 400
     (update 1.4142 all_loaded [] 300 (update 1.4142 all_loaded [] 200
       (update 1.4142 all_loaded [] 100
          (die (snd (handleInput example_KEYS ''Space'' (new_Skier 0 0))))))))) = 5"
proof -
  let ?a = "\<lparr> images = IMAGES_JUMPING, looping = False, callback = Some ContinueFromJump \<rparr>"
  let ?s0 = "die (snd (handleInput example_KEYS ''Space'' (new_Skier 0 0)))"
  let ?s1 = "update 1.4142 all_loaded [] 100 ?s0"
  let ?s2 = "update 1.4142 all_loaded [] 200 ?s1"
  let ?s3 = "update 1.4142 all_loaded [] 300 ?s2"
  let ?s4 = "update 1.4142 all_loaded [] 400 ?s3"
  have len: "int (length (images ?a)) = 5"
    by (simp add: IMAGES_JUMPING_def)
  have 0: "isDead ?s0 \<and> curAnimation ?s0 = Some ?a \<and> curAnimationFrame ?s0 = 0 \<and>
      curAnimationFrameTime ?s0 = 0"
    by (simp add: handleInput_def example_KEYS_def skier_defs)
  have 1: "isDead ?s1 \<and> curAnimation ?s1 = Some ?a \<and> curAnimationFrame ?s1 = 1 \<and>
      curAnimationFrameTime ?s1 = 100"
    using update_dead_step [of ?s0 ?a 100 "1.4142" all_loaded "[]"] 0 len by simp
  have 2: "isDead ?s2 \<and> curAnimation ?s2 = Some ?a \<and> curAnimationFrame ?s2 = 2 \<and>
      curAnimationFrameTime ?s2 = 200"
    using update_dead_step [of ?s1 ?a 200 "1.4142" all_loaded "[]"] 1 len by simp
  have 3: "isDead ?s3 \<and> curAnimation ?s3 = Some ?a \<and> curAnimationFrame ?s3 = 3 \<and>
      curAnimationFrameTime ?s3 = 300"
    using update_dead_step [of ?s2 ?a 300 "1.4142" all_loaded "[]"] 2 len by simp
  have 4: "isDead ?s4 \<and> curAnimation ?s4 = Some ?a \<and> curAnimationFrame ?s4 = 4 \<and>
      curAnimationFrameTime ?s4 = 400"
    using update_dead_step [of ?s3 ?a 400 "1.4142" all_loaded "[]"] 3 len by simp
  have 5: "state (update 1.4142 all_loaded [] 500 ?s4) = Some STATE_SKIING \<and>
      speed (update 1.4142 all_loaded [] 500 ?s4) = STARTING_SPEED"
    using update_dead_revives [of ?s4 ?a 500 "1.4142" all_loaded "[]"] 4 len by simp
  have r: "reachable ?s0"
    by (intro reachable.died reachable.input reachable.constructed)
  from 0 have "state ?s0 = Some STATE_DEAD"
    by (simp add: isDead_def)
  with 5 r show ?thesis by (simp add: STARTING_SPEED_def)
qed

end
